theory Spec2Isabelle
  imports Main
begin

section \<open>JavaScript values\<close>

text \<open>
  The wrapper classes are written in JavaScript and pass untyped values around: any
  argument may be left \<open>undefined\<close>, a response body is whatever JSON the server sent.
  Numbers are restricted to integers (every numeric constant of the source is one).
  An object is the list of its own properties in insertion order; a stream (the body
  axios hands over under \<open>responseType: 'stream'\<close>) is an opaque handle.
\<close>

datatype jsval =
    JUndefined
  | JNull
  | JBool bool
  | JNum int
  | JStr string
  | JArr "jsval list"
  | JObj "(string \<times> jsval) list"
  | JStream nat

datatype jserror =
    AxiosError string "nat option"
  | TypeError string
  | Error string

text \<open>\<open>error.message\<close>\<close>

fun message :: "jserror \<Rightarrow> string" where
  "message (AxiosError m s) = m"
| "message (TypeError m) = m"
| "message (Error m) = m"

definition digit_char :: "nat \<Rightarrow> char" where
  "digit_char d =
     (if d = 0 then CHR ''0'' else if d = 1 then CHR ''1'' else if d = 2 then CHR ''2''
      else if d = 3 then CHR ''3'' else if d = 4 then CHR ''4'' else if d = 5 then CHR ''5''
      else if d = 6 then CHR ''6'' else if d = 7 then CHR ''7'' else if d = 8 then CHR ''8''
      else CHR ''9'')"

function dec_nat :: "nat \<Rightarrow> string" where
  "dec_nat n = (if n < 10 then [digit_char n] else dec_nat (n div 10) @ [digit_char (n mod 10)])"
  by pat_completeness auto
termination
  by (relation "measure id") auto

declare dec_nat.simps [simp del]

definition dec_int :: "int \<Rightarrow> string" where
  "dec_int i = (if i < 0 then CHR ''-'' # dec_nat (nat (- i)) else dec_nat (nat i))"

fun join_with :: "string \<Rightarrow> string list \<Rightarrow> string" where
  "join_with sep [] = []"
| "join_with sep [x] = x"
| "join_with sep (x # y # ys) = x @ sep @ join_with sep (y # ys)"

text \<open>
  String conversion, as a template literal \<open>`${v}`\<close> performs it: an omitted argument
  becomes the text \<open>undefined\<close>.
\<close>

fun js_to_string :: "jsval \<Rightarrow> string" where
  "js_to_string JUndefined = ''undefined''"
| "js_to_string JNull = ''null''"
| "js_to_string (JBool b) = (if b then ''true'' else ''false'')"
| "js_to_string (JNum n) = dec_int n"
| "js_to_string (JStr s) = s"
| "js_to_string (JArr xs) =
     join_with '','' (map (\<lambda>x. if x = JUndefined \<or> x = JNull then [] else js_to_string x) xs)"
| "js_to_string (JObj kvs) = ''[object Object]''"
| "js_to_string (JStream h) = ''[object Object]''"

text \<open>Truthiness, as the conditional operator \<open>v ? a : b\<close> tests it.\<close>

fun truthy :: "jsval \<Rightarrow> bool" where
  "truthy JUndefined = False"
| "truthy JNull = False"
| "truthy (JBool b) = b"
| "truthy (JNum n) = (n \<noteq> 0)"
| "truthy (JStr s) = (s \<noteq> [])"
| "truthy (JArr xs) = True"
| "truthy (JObj kvs) = True"
| "truthy (JStream h) = True"

text \<open>The value of the property \<open>k\<close> of an object, \<open>undefined\<close> when it has none.\<close>

definition field :: "(string \<times> jsval) list \<Rightarrow> string \<Rightarrow> jsval" where
  "field kvs k = (case map_of kvs k of None \<Rightarrow> JUndefined | Some v \<Rightarrow> v)"

text \<open>
  Property read \<open>v.k\<close>: a \<open>TypeError\<close> on \<open>undefined\<close> and \<open>null\<close>, the property's
  value on an object that has it, \<open>undefined\<close> otherwise (the keys read by the source are
  not built-in properties of strings, numbers, arrays or streams).
\<close>

definition js_get :: "jsval \<Rightarrow> string \<Rightarrow> jserror + jsval" where
  "js_get v k =
     (case v of
        JUndefined \<Rightarrow>
          Inl (TypeError (''Cannot read properties of undefined (reading '' @ [CHR 0x27] @ k @ [CHR 0x27] @ '')''))
      | JNull \<Rightarrow>
          Inl (TypeError (''Cannot read properties of null (reading '' @ [CHR 0x27] @ k @ [CHR 0x27] @ '')''))
      | JObj kvs \<Rightarrow> Inr (field kvs k)
      | _ \<Rightarrow> Inr JUndefined)"

text \<open>A parameter default \<open>(p = d)\<close> applies exactly when the argument is \<open>undefined\<close>.\<close>

definition dflt :: "jsval \<Rightarrow> jsval \<Rightarrow> jsval" where
  "dflt d a = (if a = JUndefined then d else a)"

section \<open>Requests, responses and the HTTP client\<close>

datatype verb = GET | POST | PUT

text \<open>The configuration object of an axios call, and the request axios issues from it.\<close>

record config =
  headers :: "(string \<times> string) list"
  params :: "(string \<times> jsval) list option"
  responseType :: "string option"

record request = config +
  verb :: verb
  url :: string
  payload :: "jsval option"

record response =
  status :: nat
  data :: jsval

text \<open>What the network does with a request: no reply at all, or a status and a body.\<close>

datatype http_outcome = NetworkFailure string | HttpReply nat jsval

type_synonym net = "request \<Rightarrow> http_outcome"

text \<open>A network that gives the same outcome to every request.\<close>

definition always :: "http_outcome \<Rightarrow> net" where
  "always out = (\<lambda>req. out)"

text \<open>
  Side effects a handler can have: a diagnostic on the console, and a \<open>'data'\<close>
  listener attached to a stream that logs every chunk.
\<close>

datatype effect = ConsoleError string jserror | OnDataConsoleLog nat

text \<open>
  A call in flight: the request it issued, the effects of its handlers, and how its
  promise settles (\<open>Inl\<close> rejected, \<open>Inr\<close> fulfilled).
\<close>

record 'a run =
  issued :: request
  effects :: "effect list"
  settled :: "jserror + 'a"

type_synonym 'a outcome = "effect list \<times> (jserror + 'a)"

definition success_status :: "nat \<Rightarrow> bool" where
  "success_status s = (200 \<le> s \<and> s < 300)"

text \<open>
  axios is the HTTP client the classes delegate to. None of the calls overrides
  \<open>validateStatus\<close>, so the promise is fulfilled with the response on a 2xx status and
  rejected on any other status and on a transport failure.
\<close>

definition axios_request :: "net \<Rightarrow> request \<Rightarrow> response run" where
  "axios_request net req =
     \<lparr>issued = req, effects = [],
      settled =
        (case net req of
           NetworkFailure m \<Rightarrow> Inl (AxiosError m None)
         | HttpReply s d \<Rightarrow>
             if success_status s then Inr \<lparr>status = s, data = d\<rparr>
             else Inl (AxiosError (''Request failed with status code '' @ dec_nat s) (Some s)))\<rparr>"

definition axios_get :: "net \<Rightarrow> string \<Rightarrow> config \<Rightarrow> response run" where
  "axios_get net u cfg =
     axios_request net
       \<lparr>headers = headers cfg, params = params cfg, responseType = responseType cfg,
        verb = GET, url = u, payload = None\<rparr>"

definition axios_post :: "net \<Rightarrow> string \<Rightarrow> jsval \<Rightarrow> config \<Rightarrow> response run" where
  "axios_post net u d cfg =
     axios_request net
       \<lparr>headers = headers cfg, params = params cfg, responseType = responseType cfg,
        verb = POST, url = u, payload = Some d\<rparr>"

definition axios_put :: "net \<Rightarrow> string \<Rightarrow> jsval \<Rightarrow> config \<Rightarrow> response run" where
  "axios_put net u d cfg =
     axios_request net
       \<lparr>headers = headers cfg, params = params cfg, responseType = responseType cfg,
        verb = PUT, url = u, payload = Some d\<rparr>"

text \<open>
  \<open>p.then(f)\<close>: \<open>f\<close> runs on the fulfilment value, and what it returns or throws
  settles the new promise; a rejection passes through. An \<open>await\<close> inside \<open>try\<close>
  followed by the rest of the block is the same step.
\<close>

definition promise_then :: "'a run \<Rightarrow> ('a \<Rightarrow> 'b outcome) \<Rightarrow> 'b run" where
  "promise_then p f =
     (case settled p of
        Inl e \<Rightarrow> \<lparr>issued = issued p, effects = effects p, settled = Inl e\<rparr>
      | Inr v \<Rightarrow> \<lparr>issued = issued p, effects = effects p @ fst (f v), settled = snd (f v)\<rparr>)"

text \<open>
  \<open>p.catch(h)\<close>: \<open>h\<close> runs on the rejection reason; a fulfilment passes through.
  The \<open>catch\<close> block of a \<open>try\<close> is the same step.
\<close>

definition promise_catch :: "'a run \<Rightarrow> (jserror \<Rightarrow> 'a outcome) \<Rightarrow> 'a run" where
  "promise_catch p h =
     (case settled p of
        Inl e \<Rightarrow> \<lparr>issued = issued p, effects = effects p @ fst (h e), settled = snd (h e)\<rparr>
      | Inr v \<Rightarrow> p)"

text \<open>A handler that evaluates an expression: its value is returned, its exception thrown.\<close>

definition returning :: "jserror + 'a \<Rightarrow> 'a outcome" where
  "returning r = ([], r)"

text \<open>\<open>error => { console.error(label, error); throw error; }\<close>\<close>

definition log_and_rethrow :: "string \<Rightarrow> jserror \<Rightarrow> 'a outcome" where
  "log_and_rethrow label error = ([ConsoleError label error], Inl error)"

text \<open>\<open>catch (error) { throw new Error(`<prefix>${error.message}`); }\<close>\<close>

definition throw_new_Error :: "string \<Rightarrow> jserror \<Rightarrow> 'a outcome" where
  "throw_new_Error prefix error = ([], Inl (Error (prefix @ message error)))"

section \<open>The clients\<close>

record client =
  baseUrl :: string
  token :: jsval

definition bearer :: "client \<Rightarrow> string" where
  "bearer this = ''Bearer '' @ js_to_string (token this)"

subsection \<open>class Accounts\<close>

definition Accounts :: "jsval \<Rightarrow> client" where
  "Accounts tok = \<lparr>baseUrl = ''https://api.tradestation.com/v3/brokerage'', token = tok\<rparr>"

text \<open>
  The configuration with only the bearer token, which most calls pass.
\<close>

definition auth_headers :: "client \<Rightarrow> (string \<times> string) list" where
  "auth_headers this = [(''Authorization'', bearer this)]"

definition stream_headers :: "client \<Rightarrow> (string \<times> string) list" where
  "stream_headers this =
     [(''Authorization'', bearer this), (''Accept'', ''application/vnd.tradestation.streams.v2+json'')]"

definition json_headers :: "client \<Rightarrow> (string \<times> string) list" where
  "json_headers this = [(''Authorization'', bearer this), (''Content-Type'', ''application/json'')]"

definition getAccounts :: "client \<Rightarrow> net \<Rightarrow> jsval run" where
  "getAccounts this net =
     (let u = baseUrl this @ ''/accounts'' in
      promise_catch
        (promise_then
           (axios_get net u \<lparr>headers = auth_headers this, params = None, responseType = None\<rparr>)
           (\<lambda>response. returning (js_get (data response) ''Accounts'')))
        (log_and_rethrow ''Error fetching accounts:''))"

definition getAccountBalances :: "client \<Rightarrow> net \<Rightarrow> jsval \<Rightarrow> jsval run" where
  "getAccountBalances this net accountIds =
     (let u = baseUrl this @ ''/accounts/'' @ js_to_string accountIds @ ''/balances'' in
      promise_catch
        (promise_then
           (axios_get net u \<lparr>headers = auth_headers this, params = None, responseType = None\<rparr>)
           (\<lambda>response. returning (js_get (data response) ''Balances'')))
        (log_and_rethrow ''Error fetching account balances:''))"

definition getBalancesBOD :: "client \<Rightarrow> net \<Rightarrow> jsval \<Rightarrow> jsval run" where
  "getBalancesBOD this net accountIds =
     (let u = baseUrl this @ ''/accounts/'' @ js_to_string accountIds @ ''/bodbalances'' in
      promise_catch
        (promise_then
           (axios_get net u \<lparr>headers = auth_headers this, params = None, responseType = None\<rparr>)
           (\<lambda>response. returning (js_get (data response) ''BODBalances'')))
        (log_and_rethrow ''Error fetching Beginning of Day Balances:''))"

text \<open>\<open>getHistoricalOrders(accounts, since, pageSize = 600, nextToken = null)\<close>\<close>

definition getHistoricalOrders ::
  "client \<Rightarrow> net \<Rightarrow> jsval \<Rightarrow> jsval \<Rightarrow> jsval \<Rightarrow> jsval \<Rightarrow> jsval run" where
  "getHistoricalOrders this net accounts since pageSize nextToken =
     (let u = baseUrl this @ ''/accounts/'' @ js_to_string accounts @ ''/historicalorders'' in
      promise_catch
        (promise_then
           (axios_get net u
              \<lparr>headers = auth_headers this,
               params = Some [(''since'', since), (''pageSize'', dflt (JNum 600) pageSize),
                              (''nextToken'', dflt JNull nextToken)],
               responseType = None\<rparr>)
           (\<lambda>response. returning (Inr (data response))))
        (log_and_rethrow ''Error fetching historical orders:''))"

text \<open>Here \<open>since\<close> is written into the URL by the template literal, not passed as a parameter.\<close>

definition getHistoricalOrdersByOrderID ::
  "client \<Rightarrow> net \<Rightarrow> jsval \<Rightarrow> jsval \<Rightarrow> jsval \<Rightarrow> jsval run" where
  "getHistoricalOrdersByOrderID this net accounts orderIds since =
     (let u = baseUrl this @ ''/accounts/'' @ js_to_string accounts @ ''/historicalorders/''
                @ js_to_string orderIds @ ''?since='' @ js_to_string since in
      promise_catch
        (promise_then
           (axios_get net u \<lparr>headers = auth_headers this, params = None, responseType = None\<rparr>)
           (\<lambda>response. returning (Inr (data response))))
        (log_and_rethrow ''Error fetching historical orders:''))"

text \<open>\<open>getOrders(accounts, pageSize = 600, nextToken)\<close>\<close>

definition getOrders :: "client \<Rightarrow> net \<Rightarrow> jsval \<Rightarrow> jsval \<Rightarrow> jsval \<Rightarrow> jsval run" where
  "getOrders this net accounts pageSize nextToken =
     (let u = baseUrl this @ ''/accounts/'' @ js_to_string accounts @ ''/orders'';
          ps = [(''pageSize'', dflt (JNum 600) pageSize), (''nextToken'', nextToken)] in
      promise_catch
        (promise_then
           (axios_get net u \<lparr>headers = auth_headers this, params = Some ps, responseType = None\<rparr>)
           (\<lambda>response. returning (js_get (data response) ''Orders'')))
        (log_and_rethrow ''Error fetching orders:''))"

definition getOrdersByOrderID :: "client \<Rightarrow> net \<Rightarrow> jsval \<Rightarrow> jsval \<Rightarrow> jsval run" where
  "getOrdersByOrderID this net accountIds orderIds =
     (let u = baseUrl this @ ''/accounts/'' @ js_to_string accountIds @ ''/orders/''
                @ js_to_string orderIds in
      promise_catch
        (promise_then
           (axios_get net u \<lparr>headers = auth_headers this, params = None, responseType = None\<rparr>)
           (\<lambda>response. returning (js_get (data response) ''Orders'')))
        (log_and_rethrow ''Error fetching orders:''))"

text \<open>\<open>const params = symbol ? { symbol } : {};\<close>\<close>

definition getPositions :: "client \<Rightarrow> net \<Rightarrow> jsval \<Rightarrow> jsval \<Rightarrow> jsval run" where
  "getPositions this net accounts symbol =
     (let u = baseUrl this @ ''/accounts/'' @ js_to_string accounts @ ''/positions'';
          ps = (if truthy symbol then [(''symbol'', symbol)] else []) in
      promise_catch
        (promise_then
           (axios_get net u \<lparr>headers = auth_headers this, params = Some ps, responseType = None\<rparr>)
           (\<lambda>response. returning (js_get (data response) ''Positions'')))
        (log_and_rethrow ''Error fetching positions:''))"

definition getWallets :: "client \<Rightarrow> net \<Rightarrow> jsval \<Rightarrow> jsval run" where
  "getWallets this net accountID =
     (let u = baseUrl this @ ''/accounts/'' @ js_to_string accountID @ ''/wallets'' in
      promise_catch
        (promise_then
           (axios_get net u \<lparr>headers = auth_headers this, params = None, responseType = None\<rparr>)
           (\<lambda>response. returning (js_get (data response) ''Wallets'')))
        (log_and_rethrow ''Error fetching wallets:''))"

definition streamWallets :: "client \<Rightarrow> net \<Rightarrow> jsval \<Rightarrow> jsval run" where
  "streamWallets this net account =
     (let u = baseUrl this @ ''/stream/accounts/'' @ js_to_string account @ ''/wallets'' in
      promise_catch
        (promise_then
           (axios_get net u
              \<lparr>headers = stream_headers this, params = None, responseType = Some ''stream''\<rparr>)
           (\<lambda>response. returning (Inr (data response))))
        (log_and_rethrow ''Error streaming wallets:''))"

text \<open>
  \<open>response.data.on('data', data => { console.log(data.toString()); })\<close>: the call attaches
  the listener to a stream and yields nothing; the arrow function around it has a block
  body without \<open>return\<close>, so it returns \<open>undefined\<close>.
\<close>

definition on_data_console_log :: "jsval \<Rightarrow> jsval outcome" where
  "on_data_console_log d =
     (case d of
        JStream h \<Rightarrow> ([OnDataConsoleLog h], Inr JUndefined)
      | JUndefined \<Rightarrow>
          ([], Inl (TypeError (''Cannot read properties of undefined (reading '' @ [CHR 0x27] @ ''on'' @ [CHR 0x27] @ '')'')))
      | JNull \<Rightarrow>
          ([], Inl (TypeError (''Cannot read properties of null (reading '' @ [CHR 0x27] @ ''on'' @ [CHR 0x27] @ '')'')))
      | _ \<Rightarrow> ([], Inl (TypeError ''response.data.on is not a function'')))"

definition streamOrders :: "client \<Rightarrow> net \<Rightarrow> jsval \<Rightarrow> jsval run" where
  "streamOrders this net accountIds =
     (let u = baseUrl this @ ''/stream/accounts/'' @ js_to_string accountIds @ ''/orders'' in
      promise_catch
        (promise_then
           (axios_get net u
              \<lparr>headers = auth_headers this, params = None, responseType = Some ''stream''\<rparr>)
           (\<lambda>response. on_data_console_log (data response)))
        (log_and_rethrow ''Error streaming orders:''))"

definition streamOrdersByOrderId :: "client \<Rightarrow> net \<Rightarrow> jsval \<Rightarrow> jsval \<Rightarrow> jsval run" where
  "streamOrdersByOrderId this net accountIds ordersIds =
     (let u = baseUrl this @ ''/stream/accounts/'' @ js_to_string accountIds @ ''/orders/''
                @ js_to_string ordersIds in
      promise_catch
        (promise_then
           (axios_get net u \<lparr>headers = auth_headers this, params = None, responseType = None\<rparr>)
           (\<lambda>response. returning (js_get (data response) ''Orders'')))
        (log_and_rethrow ''Error streaming orders by order ID:''))"

text \<open>\<open>streamPositions(accountIds, changes = false)\<close>\<close>

definition streamPositions :: "client \<Rightarrow> net \<Rightarrow> jsval \<Rightarrow> jsval \<Rightarrow> jsval run" where
  "streamPositions this net accountIds changes =
     (let u = baseUrl this @ ''/stream/accounts/'' @ js_to_string accountIds @ ''/positions'' in
      promise_catch
        (promise_then
           (axios_get net u
              \<lparr>headers = auth_headers this,
               params = Some [(''changes'', dflt (JBool False) changes)],
               responseType = None\<rparr>)
           (\<lambda>response. returning (Inr (data response))))
        (log_and_rethrow ''Error streaming positions:''))"

subsection \<open>class Orders\<close>

definition Orders :: "jsval \<Rightarrow> client" where
  "Orders tok = \<lparr>baseUrl = ''https://api.tradestation.com/v3/orderexecution'', token = tok\<rparr>"

definition confirmOrder :: "client \<Rightarrow> net \<Rightarrow> jsval \<Rightarrow> jsval run" where
  "confirmOrder this net order =
     (let u = baseUrl this @ ''/orderconfirm'' in
      promise_catch
        (promise_then
           (axios_post net u order
              \<lparr>headers = json_headers this, params = None, responseType = None\<rparr>)
           (\<lambda>response. returning (js_get (data response) ''Confirmations'')))
        (log_and_rethrow ''Error confirming order:''))"

definition confirmGroupOrder :: "client \<Rightarrow> net \<Rightarrow> jsval \<Rightarrow> jsval run" where
  "confirmGroupOrder this net groupOrder =
     (let u = baseUrl this @ ''/ordergroupconfirm'' in
      promise_catch
        (promise_then
           (axios_post net u groupOrder
              \<lparr>headers = json_headers this, params = None, responseType = None\<rparr>)
           (\<lambda>response. returning (js_get (data response) ''OrderConfirmResponses'')))
        (log_and_rethrow ''Error confirming group order:''))"

definition placeGroupOrder :: "client \<Rightarrow> net \<Rightarrow> jsval \<Rightarrow> jsval run" where
  "placeGroupOrder this net groupOrder =
     (let u = baseUrl this @ ''/ordergroups'' in
      promise_catch
        (promise_then
           (axios_post net u groupOrder
              \<lparr>headers = json_headers this, params = None, responseType = None\<rparr>)
           (\<lambda>response. returning (js_get (data response) ''Orders'')))
        (log_and_rethrow ''Error placing group order:''))"

definition placeOrder :: "client \<Rightarrow> net \<Rightarrow> jsval \<Rightarrow> jsval run" where
  "placeOrder this net order =
     (let u = baseUrl this @ ''/orders'' in
      promise_catch
        (promise_then
           (axios_post net u order
              \<lparr>headers = json_headers this, params = None, responseType = None\<rparr>)
           (\<lambda>response. returning (js_get (data response) ''Orders'')))
        (log_and_rethrow ''Error placing order:''))"

definition replaceOrder :: "client \<Rightarrow> net \<Rightarrow> jsval \<Rightarrow> jsval \<Rightarrow> jsval run" where
  "replaceOrder this net orderID replacementOrder =
     (let u = baseUrl this @ ''/orders/'' @ js_to_string orderID in
      promise_catch
        (promise_then
           (axios_put net u replacementOrder
              \<lparr>headers = json_headers this, params = None, responseType = None\<rparr>)
           (\<lambda>response. returning (Inr (data response))))
        (log_and_rethrow ''Error replacing order:''))"

definition getActivationTriggers :: "client \<Rightarrow> net \<Rightarrow> jsval run" where
  "getActivationTriggers this net =
     (let u = baseUrl this @ ''/activationtriggers'' in
      promise_catch
        (promise_then
           (axios_get net u \<lparr>headers = auth_headers this, params = None, responseType = None\<rparr>)
           (\<lambda>response. returning (js_get (data response) ''ActivationTriggers'')))
        (log_and_rethrow ''Error getting activation triggers:''))"

definition getRoutes :: "client \<Rightarrow> net \<Rightarrow> jsval run" where
  "getRoutes this net =
     (let u = baseUrl this @ ''/routes'' in
      promise_catch
        (promise_then
           (axios_get net u \<lparr>headers = auth_headers this, params = None, responseType = None\<rparr>)
           (\<lambda>response. returning (js_get (data response) ''Routes'')))
        (log_and_rethrow ''Error getting routes:''))"

subsection \<open>class Symbols\<close>

text \<open>Both methods return the promise of axios itself: it settles with the whole response.\<close>

definition Symbols :: "jsval \<Rightarrow> client" where
  "Symbols tok = \<lparr>baseUrl = ''https://api.tradestation.com/v2/data/symbols'', token = tok\<rparr>"

definition suggestSymbols :: "client \<Rightarrow> net \<Rightarrow> jsval \<Rightarrow> jsval \<Rightarrow> jsval \<Rightarrow> response run" where
  "suggestSymbols this net txt top_arg filter_arg =
     (let u = baseUrl this @ ''/suggest/'' @ js_to_string txt;
          ps = [(''$top'', top_arg), (''$filter'', filter_arg)] in
      axios_get net u \<lparr>headers = auth_headers this, params = Some ps, responseType = None\<rparr>)"

definition searchSymbols :: "client \<Rightarrow> net \<Rightarrow> jsval \<Rightarrow> response run" where
  "searchSymbols this net criteria =
     (let u = baseUrl this @ ''/search/'' @ js_to_string criteria in
      axios_get net u \<lparr>headers = auth_headers this, params = None, responseType = None\<rparr>)"

subsection \<open>class MarketData\<close>

definition MarketData :: "jsval \<Rightarrow> client" where
  "MarketData tok = \<lparr>baseUrl = ''https://api.tradestation.com/v3/marketdata'', token = tok\<rparr>"

text \<open>
  \<open>getBars(symbol, interval = '1', unit = 'Daily', barsback = '1', firstdate, lastdate,
  sessiontemplate)\<close>. The first statement replaces an \<open>undefined\<close> \<open>lastdate\<close> by
  \<open>new Date().toISOString()\<close>; \<open>now\<close> is the text that expression yields at the call.
\<close>

definition getBars ::
  "client \<Rightarrow> net \<Rightarrow> string \<Rightarrow> jsval \<Rightarrow> jsval \<Rightarrow> jsval \<Rightarrow> jsval \<Rightarrow> jsval \<Rightarrow> jsval \<Rightarrow> jsval
     \<Rightarrow> jsval run" where
  "getBars this net now symbol interval unit barsback firstdate lastdate sessiontemplate =
     (let lastdate' = (if lastdate = JUndefined then JStr now else lastdate);
          u = baseUrl this @ ''/barcharts/'' @ js_to_string symbol;
          ps = [(''interval'', dflt (JStr ''1'') interval), (''unit'', dflt (JStr ''Daily'') unit),
                (''barsback'', dflt (JStr ''1'') barsback), (''firstdate'', firstdate),
                (''lastdate'', lastdate'), (''sessiontemplate'', sessiontemplate)] in
      promise_catch
        (promise_then
           (axios_get net u \<lparr>headers = auth_headers this, params = Some ps, responseType = None\<rparr>)
           (\<lambda>response. returning (Inr (data response))))
        (throw_new_Error ''Error fetching bars: ''))"

text \<open>\<open>streamBars(symbol, interval = '1', unit = 'Daily', barsback = '1', sessiontemplate)\<close>\<close>

definition streamBars ::
  "client \<Rightarrow> net \<Rightarrow> jsval \<Rightarrow> jsval \<Rightarrow> jsval \<Rightarrow> jsval \<Rightarrow> jsval \<Rightarrow> response run" where
  "streamBars this net symbol interval unit barsback sessiontemplate =
     (let u = baseUrl this @ ''/stream/barcharts/'' @ js_to_string symbol;
          ps = [(''interval'', dflt (JStr ''1'') interval), (''unit'', dflt (JStr ''Daily'') unit),
                (''barsback'', dflt (JStr ''1'') barsback), (''sessiontemplate'', sessiontemplate)] in
      axios_get net u
        \<lparr>headers = stream_headers this, params = Some ps, responseType = Some ''stream''\<rparr>)"

definition getCryptoSymbolNames :: "client \<Rightarrow> net \<Rightarrow> jsval run" where
  "getCryptoSymbolNames this net =
     (let u = baseUrl this @ ''/symbollists/cryptopairs/symbolnames'' in
      promise_catch
        (promise_then
           (axios_get net u \<lparr>headers = auth_headers this, params = None, responseType = None\<rparr>)
           (\<lambda>response. returning (js_get (data response) ''SymbolNames'')))
        (throw_new_Error ''Error fetching crypto symbol names: ''))"

definition getSymbolDetails :: "client \<Rightarrow> net \<Rightarrow> jsval \<Rightarrow> jsval run" where
  "getSymbolDetails this net symbols =
     (let u = baseUrl this @ ''/symbols/'' @ js_to_string symbols in
      promise_catch
        (promise_then
           (axios_get net u \<lparr>headers = auth_headers this, params = None, responseType = None\<rparr>)
           (\<lambda>response. returning (Inr (data response))))
        (throw_new_Error ''Error fetching symbol details: ''))"

text \<open>
  \<open>getOptionExpirations(underlying, strikePrice = null)\<close>, with
  \<open>const params = strikePrice ? { strikePrice } : {};\<close>
\<close>

definition getOptionExpirations :: "client \<Rightarrow> net \<Rightarrow> jsval \<Rightarrow> jsval \<Rightarrow> jsval run" where
  "getOptionExpirations this net underlying strikePrice =
     (let strikePrice' = dflt JNull strikePrice;
          u = baseUrl this @ ''/options/expirations/'' @ js_to_string underlying;
          ps = (if truthy strikePrice' then [(''strikePrice'', strikePrice')] else []) in
      promise_catch
        (promise_then
           (axios_get net u \<lparr>headers = auth_headers this, params = Some ps, responseType = None\<rparr>)
           (\<lambda>response. returning (js_get (data response) ''Expirations'')))
        (throw_new_Error ''Error fetching option expirations: ''))"

definition getOptionRiskReward :: "client \<Rightarrow> net \<Rightarrow> jsval \<Rightarrow> jsval run" where
  "getOptionRiskReward this net riskRewardInput =
     (let u = baseUrl this @ ''/options/riskreward'' in
      promise_catch
        (promise_then
           (axios_post net u riskRewardInput
              \<lparr>headers = [(''Content-Type'', ''application/json''), (''Authorization'', bearer this)],
               params = None, responseType = None\<rparr>)
           (\<lambda>response. returning (Inr (data response))))
        (throw_new_Error ''Error analyzing option risk vs. reward: ''))"

definition getOptionSpreadTypes :: "client \<Rightarrow> net \<Rightarrow> jsval run" where
  "getOptionSpreadTypes this net =
     (let u = baseUrl this @ ''/options/spreadtypes'' in
      promise_catch
        (promise_then
           (axios_get net u \<lparr>headers = auth_headers this, params = None, responseType = None\<rparr>)
           (\<lambda>response. returning (js_get (data response) ''SpreadTypes'')))
        (throw_new_Error ''Error fetching option spread types: ''))"

text \<open>
  The object literal \<open>{ SpreadType: response.data.SpreadType, Strikes: response.data.Strikes }\<close>:
  the two reads in order, the first exception wins.
\<close>

definition spread_and_strikes :: "jsval \<Rightarrow> jserror + jsval" where
  "spread_and_strikes d =
     (case js_get d ''SpreadType'' of
        Inl e \<Rightarrow> Inl e
      | Inr a \<Rightarrow>
          (case js_get d ''Strikes'' of
             Inl e \<Rightarrow> Inl e
           | Inr b \<Rightarrow> Inr (JObj [(''SpreadType'', a), (''Strikes'', b)])))"

text \<open>\<open>getOptionStrikes(underlying, spreadType = 'Single', strikeInterval = 1, expiration, expiration2)\<close>\<close>

definition getOptionStrikes ::
  "client \<Rightarrow> net \<Rightarrow> jsval \<Rightarrow> jsval \<Rightarrow> jsval \<Rightarrow> jsval \<Rightarrow> jsval \<Rightarrow> jsval run" where
  "getOptionStrikes this net underlying spreadType strikeInterval expiration expiration2 =
     (let u = baseUrl this @ ''/options/strikes/'' @ js_to_string underlying;
          ps = [(''spreadType'', dflt (JStr ''Single'') spreadType),
                (''strikeInterval'', dflt (JNum 1) strikeInterval),
                (''expiration'', expiration), (''expiration2'', expiration2)] in
      promise_catch
        (promise_then
           (axios_get net u \<lparr>headers = auth_headers this, params = Some ps, responseType = None\<rparr>)
           (\<lambda>response. returning (spread_and_strikes (data response))))
        (throw_new_Error ''Error fetching option strikes: ''))"

text \<open>
  \<open>streamOptionChain(underlying, expiration, expiration2, strikeProximity = 5,
  spreadType = 'Single', riskFreeRate, priceCenter, strikeInterval = 1, enableGreeks = true,
  strikeRange = 'All', optionType = 'All')\<close>
\<close>

definition streamOptionChain ::
  "client \<Rightarrow> net \<Rightarrow> jsval \<Rightarrow> jsval \<Rightarrow> jsval \<Rightarrow> jsval \<Rightarrow> jsval \<Rightarrow> jsval \<Rightarrow> jsval \<Rightarrow> jsval
     \<Rightarrow> jsval \<Rightarrow> jsval \<Rightarrow> jsval \<Rightarrow> response run" where
  "streamOptionChain this net underlying expiration expiration2 strikeProximity spreadType
       riskFreeRate priceCenter strikeInterval enableGreeks strikeRange optionType =
     (let u = baseUrl this @ ''/stream/options/chains/'' @ js_to_string underlying;
          ps = [(''expiration'', expiration), (''expiration2'', expiration2),
                (''strikeProximity'', dflt (JNum 5) strikeProximity),
                (''spreadType'', dflt (JStr ''Single'') spreadType),
                (''riskFreeRate'', riskFreeRate), (''priceCenter'', priceCenter),
                (''strikeInterval'', dflt (JNum 1) strikeInterval),
                (''enableGreeks'', dflt (JBool True) enableGreeks),
                (''strikeRange'', dflt (JStr ''All'') strikeRange),
                (''optionType'', dflt (JStr ''All'') optionType)] in
      axios_get net u
        \<lparr>headers = stream_headers this, params = Some ps, responseType = Some ''stream''\<rparr>)"

text \<open>\<open>streamOptionQuotes(legs_0_Symbol, legs_0_Ratio = 1, riskFreeRate, enableGreeks = true)\<close>\<close>

definition streamOptionQuotes ::
  "client \<Rightarrow> net \<Rightarrow> jsval \<Rightarrow> jsval \<Rightarrow> jsval \<Rightarrow> jsval \<Rightarrow> response run" where
  "streamOptionQuotes this net legs_0_Symbol legs_0_Ratio riskFreeRate enableGreeks =
     (let u = baseUrl this @ ''/stream/options/quotes'';
          ps = [(''legs[0].Symbol'', legs_0_Symbol),
                (''legs[0].Ratio'', dflt (JNum 1) legs_0_Ratio),
                (''riskFreeRate'', riskFreeRate),
                (''enableGreeks'', dflt (JBool True) enableGreeks)] in
      axios_get net u
        \<lparr>headers = stream_headers this, params = Some ps, responseType = Some ''stream''\<rparr>)"

definition getQuoteSnapshots :: "client \<Rightarrow> net \<Rightarrow> jsval \<Rightarrow> response run" where
  "getQuoteSnapshots this net symbols =
     (let u = baseUrl this @ ''/quotes/'' @ js_to_string symbols in
      axios_get net u \<lparr>headers = auth_headers this, params = None, responseType = None\<rparr>)"

definition streamQuoteChanges :: "client \<Rightarrow> net \<Rightarrow> jsval \<Rightarrow> response run" where
  "streamQuoteChanges this net symbols =
     (let u = baseUrl this @ ''/stream/quotes/'' @ js_to_string symbols in
      axios_get net u
        \<lparr>headers = stream_headers this, params = None, responseType = Some ''stream''\<rparr>)"

text \<open>\<open>streamMarketDepthQuotes(symbol, maxLevels = 20)\<close>, sent as \<open>maxlevels\<close>.\<close>

definition streamMarketDepthQuotes :: "client \<Rightarrow> net \<Rightarrow> jsval \<Rightarrow> jsval \<Rightarrow> response run" where
  "streamMarketDepthQuotes this net symbol maxLevels =
     (let u = baseUrl this @ ''/stream/marketdepth/quotes/'' @ js_to_string symbol;
          ps = [(''maxlevels'', dflt (JNum 20) maxLevels)] in
      axios_get net u
        \<lparr>headers = stream_headers this, params = Some ps, responseType = Some ''stream''\<rparr>)"

definition streamMarketDepthAggregates :: "client \<Rightarrow> net \<Rightarrow> jsval \<Rightarrow> jsval \<Rightarrow> response run" where
  "streamMarketDepthAggregates this net symbol maxLevels =
     (let u = baseUrl this @ ''/stream/marketdepth/aggregates/'' @ js_to_string symbol;
          ps = [(''maxlevels'', dflt (JNum 20) maxLevels)] in
      axios_get net u
        \<lparr>headers = stream_headers this, params = Some ps, responseType = Some ''stream''\<rparr>)"

text \<open>The URL of \<open>streamTickBars\<close> is absolute: it does not start from \<open>this.baseUrl\<close>.\<close>

definition streamTickBars :: "client \<Rightarrow> net \<Rightarrow> jsval \<Rightarrow> jsval \<Rightarrow> jsval \<Rightarrow> jsval run" where
  "streamTickBars this net symbol interval barsBack =
     (let u = ''https://api.tradestation.com/v2/stream/tickbars/'' @ js_to_string symbol @ ''/''
                @ js_to_string interval @ ''/'' @ js_to_string barsBack in
      promise_catch
        (promise_then
           (axios_get net u \<lparr>headers = auth_headers this, params = None, responseType = None\<rparr>)
           (\<lambda>response. returning (Inr (data response))))
        (log_and_rethrow ''Error streaming tick bars:''))"

section \<open>The library as a whole\<close>

text \<open>
  Every public method of the four classes, with its arguments in the order of the
  source (an omitted argument is \<open>undefined\<close>).
\<close>

datatype call =
    GetAccounts
  | GetAccountBalances jsval
  | GetBalancesBOD jsval
  | GetHistoricalOrders jsval jsval jsval jsval
  | GetHistoricalOrdersByOrderID jsval jsval jsval
  | GetOrders jsval jsval jsval
  | GetOrdersByOrderID jsval jsval
  | GetPositions jsval jsval
  | GetWallets jsval
  | StreamWallets jsval
  | StreamOrders jsval
  | StreamOrdersByOrderId jsval jsval
  | StreamPositions jsval jsval
  | ConfirmOrder jsval
  | ConfirmGroupOrder jsval
  | PlaceGroupOrder jsval
  | PlaceOrder jsval
  | ReplaceOrder jsval jsval
  | GetActivationTriggers
  | GetRoutes
  | SuggestSymbols jsval jsval jsval
  | SearchSymbols jsval
  | GetBars jsval jsval jsval jsval jsval jsval jsval
  | StreamBars jsval jsval jsval jsval jsval
  | GetCryptoSymbolNames
  | GetSymbolDetails jsval
  | GetOptionExpirations jsval jsval
  | GetOptionRiskReward jsval
  | GetOptionSpreadTypes
  | GetOptionStrikes jsval jsval jsval jsval jsval
  | StreamOptionChain jsval jsval jsval jsval jsval jsval jsval jsval jsval jsval jsval
  | StreamOptionQuotes jsval jsval jsval jsval
  | GetQuoteSnapshots jsval
  | StreamQuoteChanges jsval
  | StreamMarketDepthQuotes jsval jsval
  | StreamMarketDepthAggregates jsval jsval
  | StreamTickBars jsval jsval jsval

text \<open>
  What a promise of the library is fulfilled with: a value taken from the response, or
  the response object of axios itself.
\<close>

datatype resolution = Value jsval | WholeResponse response

definition resolving :: "('a \<Rightarrow> resolution) \<Rightarrow> 'a run \<Rightarrow> resolution run" where
  "resolving f r =
     \<lparr>issued = issued r, effects = effects r,
      settled = (case settled r of Inl e \<Rightarrow> Inl e | Inr v \<Rightarrow> Inr (f v))\<rparr>"

text \<open>
  \<open>invoke tok net now c\<close> constructs the class of the method with the token \<open>tok\<close> and
  calls the method.
\<close>

fun invoke :: "jsval \<Rightarrow> net \<Rightarrow> string \<Rightarrow> call \<Rightarrow> resolution run" where
  "invoke tok net now GetAccounts = resolving Value (getAccounts (Accounts tok) net)"
| "invoke tok net now (GetAccountBalances a) = resolving Value (getAccountBalances (Accounts tok) net a)"
| "invoke tok net now (GetBalancesBOD a) = resolving Value (getBalancesBOD (Accounts tok) net a)"
| "invoke tok net now (GetHistoricalOrders a b c d) =
     resolving Value (getHistoricalOrders (Accounts tok) net a b c d)"
| "invoke tok net now (GetHistoricalOrdersByOrderID a b c) =
     resolving Value (getHistoricalOrdersByOrderID (Accounts tok) net a b c)"
| "invoke tok net now (GetOrders a b c) = resolving Value (getOrders (Accounts tok) net a b c)"
| "invoke tok net now (GetOrdersByOrderID a b) = resolving Value (getOrdersByOrderID (Accounts tok) net a b)"
| "invoke tok net now (GetPositions a b) = resolving Value (getPositions (Accounts tok) net a b)"
| "invoke tok net now (GetWallets a) = resolving Value (getWallets (Accounts tok) net a)"
| "invoke tok net now (StreamWallets a) = resolving Value (streamWallets (Accounts tok) net a)"
| "invoke tok net now (StreamOrders a) = resolving Value (streamOrders (Accounts tok) net a)"
| "invoke tok net now (StreamOrdersByOrderId a b) =
     resolving Value (streamOrdersByOrderId (Accounts tok) net a b)"
| "invoke tok net now (StreamPositions a b) = resolving Value (streamPositions (Accounts tok) net a b)"
| "invoke tok net now (ConfirmOrder a) = resolving Value (confirmOrder (Orders tok) net a)"
| "invoke tok net now (ConfirmGroupOrder a) = resolving Value (confirmGroupOrder (Orders tok) net a)"
| "invoke tok net now (PlaceGroupOrder a) = resolving Value (placeGroupOrder (Orders tok) net a)"
| "invoke tok net now (PlaceOrder a) = resolving Value (placeOrder (Orders tok) net a)"
| "invoke tok net now (ReplaceOrder a b) = resolving Value (replaceOrder (Orders tok) net a b)"
| "invoke tok net now GetActivationTriggers = resolving Value (getActivationTriggers (Orders tok) net)"
| "invoke tok net now GetRoutes = resolving Value (getRoutes (Orders tok) net)"
| "invoke tok net now (SuggestSymbols a b c) =
     resolving WholeResponse (suggestSymbols (Symbols tok) net a b c)"
| "invoke tok net now (SearchSymbols a) = resolving WholeResponse (searchSymbols (Symbols tok) net a)"
| "invoke tok net now (GetBars a b c d e f g) =
     resolving Value (getBars (MarketData tok) net now a b c d e f g)"
| "invoke tok net now (StreamBars a b c d e) =
     resolving WholeResponse (streamBars (MarketData tok) net a b c d e)"
| "invoke tok net now GetCryptoSymbolNames = resolving Value (getCryptoSymbolNames (MarketData tok) net)"
| "invoke tok net now (GetSymbolDetails a) = resolving Value (getSymbolDetails (MarketData tok) net a)"
| "invoke tok net now (GetOptionExpirations a b) =
     resolving Value (getOptionExpirations (MarketData tok) net a b)"
| "invoke tok net now (GetOptionRiskReward a) = resolving Value (getOptionRiskReward (MarketData tok) net a)"
| "invoke tok net now GetOptionSpreadTypes = resolving Value (getOptionSpreadTypes (MarketData tok) net)"
| "invoke tok net now (GetOptionStrikes a b c d e) =
     resolving Value (getOptionStrikes (MarketData tok) net a b c d e)"
| "invoke tok net now (StreamOptionChain a b c d e f g h i j k) =
     resolving WholeResponse (streamOptionChain (MarketData tok) net a b c d e f g h i j k)"
| "invoke tok net now (StreamOptionQuotes a b c d) =
     resolving WholeResponse (streamOptionQuotes (MarketData tok) net a b c d)"
| "invoke tok net now (GetQuoteSnapshots a) =
     resolving WholeResponse (getQuoteSnapshots (MarketData tok) net a)"
| "invoke tok net now (StreamQuoteChanges a) =
     resolving WholeResponse (streamQuoteChanges (MarketData tok) net a)"
| "invoke tok net now (StreamMarketDepthQuotes a b) =
     resolving WholeResponse (streamMarketDepthQuotes (MarketData tok) net a b)"
| "invoke tok net now (StreamMarketDepthAggregates a b) =
     resolving WholeResponse (streamMarketDepthAggregates (MarketData tok) net a b)"
| "invoke tok net now (StreamTickBars a b c) = resolving Value (streamTickBars (MarketData tok) net a b c)"

text \<open>
  The key a method reads from the response body before handing the result to the
  caller, for the methods whose success handler is \<open>response.data.<Key>\<close>.
\<close>

fun unwrap_key :: "call \<Rightarrow> string option" where
  "unwrap_key GetAccounts = Some ''Accounts''"
| "unwrap_key (GetAccountBalances a) = Some ''Balances''"
| "unwrap_key (GetBalancesBOD a) = Some ''BODBalances''"
| "unwrap_key (GetOrders a b c) = Some ''Orders''"
| "unwrap_key (GetOrdersByOrderID a b) = Some ''Orders''"
| "unwrap_key (GetPositions a b) = Some ''Positions''"
| "unwrap_key (GetWallets a) = Some ''Wallets''"
| "unwrap_key (StreamOrdersByOrderId a b) = Some ''Orders''"
| "unwrap_key (ConfirmOrder a) = Some ''Confirmations''"
| "unwrap_key (ConfirmGroupOrder a) = Some ''OrderConfirmResponses''"
| "unwrap_key (PlaceGroupOrder a) = Some ''Orders''"
| "unwrap_key (PlaceOrder a) = Some ''Orders''"
| "unwrap_key GetActivationTriggers = Some ''ActivationTriggers''"
| "unwrap_key GetRoutes = Some ''Routes''"
| "unwrap_key GetCryptoSymbolNames = Some ''SymbolNames''"
| "unwrap_key (GetOptionExpirations a b) = Some ''Expirations''"
| "unwrap_key GetOptionSpreadTypes = Some ''SpreadTypes''"
| "unwrap_key c = None"

text \<open>The parameter \<open>k\<close> of the configuration's \<open>params\<close> object, if the object has it.\<close>

definition param :: "request \<Rightarrow> string \<Rightarrow> jsval option" where
  "param req k = (case params req of None \<Rightarrow> None | Some ps \<Rightarrow> map_of ps k)"

text \<open>
  The parameters that reach the query string: axios leaves out every parameter whose
  value is \<open>undefined\<close> or \<open>null\<close> when it serialises \<open>params\<close>.
\<close>

definition effective_params :: "request \<Rightarrow> (string \<times> jsval) list" where
  "effective_params req =
     (case params req of
        None \<Rightarrow> []
      | Some ps \<Rightarrow> filter (\<lambda>kv. snd kv \<noteq> JUndefined \<and> snd kv \<noteq> JNull) ps)"

text \<open>The call failed: no reply, or a reply whose status is not 2xx.\<close>

fun http_failed :: "http_outcome \<Rightarrow> bool" where
  "http_failed (NetworkFailure m) = True"
| "http_failed (HttpReply s d) = (\<not> success_status s)"

section \<open>Basic facts about the promise steps\<close>

lemmas class_defs = Accounts_def Orders_def Symbols_def MarketData_def

lemmas header_defs = auth_headers_def stream_headers_def json_headers_def bearer_def

lemmas axios_defs = axios_get_def axios_post_def axios_put_def

lemmas method_defs =
  getAccounts_def getAccountBalances_def getBalancesBOD_def getHistoricalOrders_def
  getHistoricalOrdersByOrderID_def getOrders_def getOrdersByOrderID_def getPositions_def
  getWallets_def streamWallets_def streamOrders_def streamOrdersByOrderId_def streamPositions_def
  confirmOrder_def confirmGroupOrder_def placeGroupOrder_def placeOrder_def replaceOrder_def
  getActivationTriggers_def getRoutes_def suggestSymbols_def searchSymbols_def getBars_def
  streamBars_def getCryptoSymbolNames_def getSymbolDetails_def getOptionExpirations_def
  getOptionRiskReward_def getOptionSpreadTypes_def getOptionStrikes_def streamOptionChain_def
  streamOptionQuotes_def getQuoteSnapshots_def streamQuoteChanges_def
  streamMarketDepthQuotes_def streamMarketDepthAggregates_def streamTickBars_def

text \<open>No handler changes the request that was issued.\<close>

lemma issued_axios_request [simp]: "issued (axios_request net req) = req"
  by (simp add: axios_request_def)

lemma issued_promise_then [simp]: "issued (promise_then p f) = issued p"
  by (simp add: promise_then_def split: sum.split)

lemma issued_promise_catch [simp]: "issued (promise_catch p h) = issued p"
  by (simp add: promise_catch_def split: sum.split)

lemma issued_resolving [simp]: "issued (resolving f r) = issued r"
  by (simp add: resolving_def)

text \<open>The two ways the promise of axios settles.\<close>

lemma axios_request_fulfilled:
  "net req = HttpReply s d \<Longrightarrow> success_status s \<Longrightarrow>
   axios_request net req = \<lparr>issued = req, effects = [], settled = Inr \<lparr>status = s, data = d\<rparr>\<rparr>"
  by (simp add: axios_request_def)

lemma axios_request_rejected:
  "http_failed (net req) \<Longrightarrow>
   \<exists>e. axios_request net req = \<lparr>issued = req, effects = [], settled = Inl e\<rparr>"
  by (cases "net req") (simp_all add: axios_request_def)

lemma then_fulfilled [simp]:
  "promise_then \<lparr>issued = req, effects = es, settled = Inr v\<rparr> f =
   \<lparr>issued = req, effects = es @ fst (f v), settled = snd (f v)\<rparr>"
  by (simp add: promise_then_def)

lemma then_rejected [simp]:
  "promise_then \<lparr>issued = req, effects = es, settled = Inl e\<rparr> f =
   \<lparr>issued = req, effects = es, settled = Inl e\<rparr>"
  by (simp add: promise_then_def)

lemma catch_fulfilled [simp]:
  "promise_catch \<lparr>issued = req, effects = es, settled = Inr v\<rparr> h =
   \<lparr>issued = req, effects = es, settled = Inr v\<rparr>"
  by (simp add: promise_catch_def)

lemma catch_rejected [simp]:
  "promise_catch \<lparr>issued = req, effects = es, settled = Inl e\<rparr> h =
   \<lparr>issued = req, effects = es @ fst (h e), settled = snd (h e)\<rparr>"
  by (simp add: promise_catch_def)

lemma resolving_fulfilled [simp]:
  "resolving f \<lparr>issued = req, effects = es, settled = Inr v\<rparr> =
   \<lparr>issued = req, effects = es, settled = Inr (f v)\<rparr>"
  by (simp add: resolving_def)

lemma resolving_rejected [simp]:
  "resolving f \<lparr>issued = req, effects = es, settled = Inl e\<rparr> =
   \<lparr>issued = req, effects = es, settled = Inl e\<rparr>"
  by (simp add: resolving_def)

lemma js_get_object [simp]: "js_get (JObj kvs) k = Inr (field kvs k)"
  by (simp add: js_get_def)

lemma js_get_null: "\<exists>m. js_get JNull k = Inl (TypeError m)"
  by (simp add: js_get_def)

text \<open>
  The chain \<open>axios(...).then(response => response.data.<k>).catch(h)\<close> on a 2xx reply
  whose body is an object: the promise is fulfilled with the property's value, and the
  rejection handler does not run.
\<close>

lemma fetch_key_fulfilled:
  assumes "net req = HttpReply s (JObj kvs)" and "success_status s"
  shows "promise_catch
           (promise_then (axios_request net req)
              (\<lambda>response. returning (js_get (data response) k))) h =
         \<lparr>issued = req, effects = [], settled = Inr (field kvs k)\<rparr>"
  using assms by (simp add: axios_request_def returning_def)

text \<open>On a body that is \<open>null\<close> the read throws, and the rejection handler passes it on.\<close>

lemma getPositions_null_body:
  "\<exists>m. settled (getPositions this (always (HttpReply 200 JNull)) accounts symbol) = Inl (TypeError m)"
  by (simp add: getPositions_def axios_get_def Let_def axios_request_def always_def
      success_status_def returning_def js_get_def log_and_rethrow_def)

section \<open>Missing response keys\<close>

text \<open>
  Claim C1, as stated: a 2xx response whose body lacks the expected key makes the promise
  reject with a \<open>MalformedResponseError\<close> and never resolve to \<open>undefined\<close>. The code has no
  such error: \<open>getAccounts\<close> on the body \<open>{}\<close> is fulfilled with \<open>undefined\<close>.
\<close>

theorem getAccounts_missing_key_counterexample:
  "settled (getAccounts (Accounts (JStr ''tok'')) (always (HttpReply 200 (JObj [])))) = Inr JUndefined"
  by (simp add: getAccounts_def axios_get_def Let_def always_def success_status_def field_def
      fetch_key_fulfilled [where s = 200 and kvs = "[]"])

text \<open>
  Claim C1, amended: for every method that hands the caller one key of the response body,
  a 2xx response whose JSON body is an object without that key fulfils the returned promise
  with \<open>undefined\<close>; nothing is rejected.
\<close>

theorem missing_key_resolves_undefined:
  assumes "unwrap_key c = Some k"
    and "net (issued (invoke tok net now c)) = HttpReply s (JObj kvs)"
    and "success_status s"
    and "map_of kvs k = None"
  shows "settled (invoke tok net now c) = Inr (Value JUndefined)"
  using assms
  by (cases c)
     (simp_all add: method_defs class_defs axios_defs Let_def fetch_key_fulfilled field_def)

theorem missing_key_resolves_undefined_witness:
  "settled (invoke (JStr ''tok'') (always (HttpReply 200 (JObj [(''Other'', JNull)]))) ''now''
     (GetOptionExpirations (JStr ''AAPL'') JUndefined)) = Inr (Value JUndefined)"
  using missing_key_resolves_undefined
    [where c = "GetOptionExpirations (JStr ''AAPL'') JUndefined" and k = "''Expirations''"
      and net = "always (HttpReply 200 (JObj [(''Other'', JNull)]))" and s = 200
      and kvs = "[(''Other'', JNull)]" and tok = "JStr ''tok''" and now = "''now''"]
  by (simp add: always_def success_status_def)

section \<open>Omitted optional parameters\<close>

text \<open>
  \<open>getHistoricalOrders\<close> passes its optional arguments through \<open>params\<close>, where axios drops
  the ones left out: only the defaulted page size reaches the query string.
\<close>

lemma getHistoricalOrders_effective_params:
  "effective_params (issued (getHistoricalOrders this net accounts JUndefined JUndefined JUndefined))
     = [(''pageSize'', JNum 600)]"
  by (simp add: getHistoricalOrders_def axios_get_def Let_def effective_params_def dflt_def)

text \<open>
  Claim C2 says that a parameter the caller leaves \<open>undefined\<close> never reaches the query
  string, not even as the text \<open>undefined\<close>. \<open>getHistoricalOrdersByOrderID\<close> called without
  \<open>since\<close> writes exactly that text into the query string of its URL.
\<close>

theorem getHistoricalOrdersByOrderID_since_undefined:
  "url (issued (getHistoricalOrdersByOrderID (Accounts tok) net (JStr ''123'') (JStr ''456'') JUndefined))
     = ''https://api.tradestation.com/v3/brokerage/accounts/123/historicalorders/456?since=undefined''"
  by (simp add: getHistoricalOrdersByOrderID_def Accounts_def axios_get_def Let_def)

section \<open>Streaming requests\<close>

text \<open>
  \<open>streamWallets\<close> asks for the stream content type, sets \<open>responseType\<close> to \<open>stream\<close> and
  hands the caller the body of the response.
\<close>

lemma streamWallets_is_streaming:
  "map_of (headers (issued (streamWallets this net account))) ''Accept''
     = Some ''application/vnd.tradestation.streams.v2+json''
   \<and> responseType (issued (streamWallets this net account)) = Some ''stream''"
  by (simp add: streamWallets_def axios_get_def Let_def header_defs)

text \<open>
  Claim C3 says that every streaming method sends the \<open>Accept\<close> header of the stream
  content type with \<open>responseType\<close> \<open>stream\<close>. \<open>streamOrdersByOrderId\<close> sends the bearer
  token as its only header and sets no \<open>responseType\<close>.
\<close>

theorem streamOrdersByOrderId_plain_request:
  "headers (issued (streamOrdersByOrderId (Accounts (JStr ''tok'')) net (JStr ''123'') (JStr ''456'')))
     = [(''Authorization'', ''Bearer tok'')]
   \<and> responseType (issued (streamOrdersByOrderId (Accounts (JStr ''tok'')) net (JStr ''123'') (JStr ''456'')))
     = None"
  by (simp add: streamOrdersByOrderId_def Accounts_def axios_get_def Let_def header_defs)

text \<open>The same holds for \<open>streamPositions\<close> and \<open>streamTickBars\<close>; \<open>streamOrders\<close> lacks the header.\<close>

lemma other_stream_methods_plain:
  "headers (issued (streamPositions this net a b)) = [(''Authorization'', bearer this)]
   \<and> responseType (issued (streamPositions this net a b)) = None
   \<and> headers (issued (streamTickBars this net a b c)) = [(''Authorization'', bearer this)]
   \<and> responseType (issued (streamTickBars this net a b c)) = None
   \<and> headers (issued (streamOrders this net a)) = [(''Authorization'', bearer this)]
   \<and> responseType (issued (streamOrders this net a)) = Some ''stream''"
  by (simp add: streamPositions_def streamTickBars_def streamOrders_def axios_get_def Let_def
      header_defs)

section \<open>The default of \<open>lastdate\<close>\<close>

text \<open>
  Claim C4: when \<open>getBars\<close> is called with \<open>lastdate\<close> undefined, the \<open>lastdate\<close> parameter of
  the request is the current time as \<open>new Date().toISOString()\<close> gives it at the call; a
  \<open>lastdate\<close> that is supplied is passed through unchanged.
\<close>

theorem getBars_lastdate:
  "param (issued (getBars this net now symbol interval unit barsback firstdate JUndefined sessiontemplate))
     ''lastdate'' = Some (JStr now)
   \<and> (lastdate \<noteq> JUndefined \<longrightarrow>
        param (issued (getBars this net now symbol interval unit barsback firstdate lastdate sessiontemplate))
          ''lastdate'' = Some lastdate)"
  by (simp add: getBars_def axios_get_def Let_def param_def)

theorem getBars_lastdate_witness:
  "param (issued (getBars (MarketData (JStr ''tok'')) (always (NetworkFailure ''offline''))
       ''2024-05-01T12:00:00.000Z'' (JStr ''MSFT'') JUndefined JUndefined JUndefined JUndefined
       (JStr ''2024-01-31'') JUndefined)) ''lastdate'' = Some (JStr ''2024-01-31'')"
  using getBars_lastdate [where lastdate = "JStr ''2024-01-31''" and this = "MarketData (JStr ''tok'')"
      and net = "always (NetworkFailure ''offline'')" and now = "''2024-05-01T12:00:00.000Z''"
      and symbol = "JStr ''MSFT''" and interval = JUndefined and unit = JUndefined
      and barsback = JUndefined and firstdate = JUndefined and sessiontemplate = JUndefined]
  by simp

section \<open>Two calls from end to end\<close>

text \<open>
  Claim C5: \<open>getPositions("12345")\<close> without a symbol issues a GET request to
  \<open><base>/accounts/12345/positions\<close> with an empty parameter object and, on a 2xx response,
  resolves to the field \<open>Positions\<close> of the response body.
\<close>

theorem getPositions_12345:
  "verb (issued (getPositions (Accounts tok) net (JStr ''12345'') JUndefined)) = GET
   \<and> url (issued (getPositions (Accounts tok) net (JStr ''12345'') JUndefined))
       = ''https://api.tradestation.com/v3/brokerage/accounts/12345/positions''
   \<and> params (issued (getPositions (Accounts tok) net (JStr ''12345'') JUndefined)) = Some []
   \<and> (net (issued (getPositions (Accounts tok) net (JStr ''12345'') JUndefined)) = HttpReply s (JObj kvs)
        \<and> success_status s \<longrightarrow>
      settled (getPositions (Accounts tok) net (JStr ''12345'') JUndefined)
        = Inr (field kvs ''Positions''))"
  by (simp add: getPositions_def Accounts_def axios_get_def Let_def fetch_key_fulfilled)

theorem getPositions_12345_witness:
  "settled (getPositions (Accounts (JStr ''tok''))
       (always (HttpReply 200 (JObj [(''Positions'', JArr [JStr ''AAPL''])]))) (JStr ''12345'') JUndefined)
     = Inr (JArr [JStr ''AAPL''])"
  using getPositions_12345
    [where tok = "JStr ''tok''" and s = 200 and kvs = "[(''Positions'', JArr [JStr ''AAPL''])]"
      and net = "always (HttpReply 200 (JObj [(''Positions'', JArr [JStr ''AAPL''])]))"]
  by (simp add: always_def success_status_def field_def)

text \<open>
  Claim C6: \<open>getOptionStrikes("AAPL")\<close> with every optional argument omitted issues a GET
  request to \<open><base>/options/strikes/AAPL\<close> whose effective query parameters are exactly
  \<open>spreadType=Single\<close> and \<open>strikeInterval=1\<close>, and on a 2xx response resolves to the object
  \<open>{SpreadType: body.SpreadType, Strikes: body.Strikes}\<close>.
\<close>

theorem getOptionStrikes_AAPL:
  "verb (issued (getOptionStrikes (MarketData tok) net (JStr ''AAPL'') JUndefined JUndefined JUndefined JUndefined)) = GET
   \<and> url (issued (getOptionStrikes (MarketData tok) net (JStr ''AAPL'') JUndefined JUndefined JUndefined JUndefined))
       = ''https://api.tradestation.com/v3/marketdata/options/strikes/AAPL''
   \<and> effective_params (issued (getOptionStrikes (MarketData tok) net (JStr ''AAPL'') JUndefined JUndefined JUndefined JUndefined))
       = [(''spreadType'', JStr ''Single''), (''strikeInterval'', JNum 1)]
   \<and> (net (issued (getOptionStrikes (MarketData tok) net (JStr ''AAPL'') JUndefined JUndefined JUndefined JUndefined))
         = HttpReply s (JObj kvs) \<and> success_status s \<longrightarrow>
      settled (getOptionStrikes (MarketData tok) net (JStr ''AAPL'') JUndefined JUndefined JUndefined JUndefined)
        = Inr (JObj [(''SpreadType'', field kvs ''SpreadType''), (''Strikes'', field kvs ''Strikes'')]))"
  by (simp add: getOptionStrikes_def MarketData_def axios_get_def Let_def effective_params_def
      dflt_def axios_request_fulfilled returning_def spread_and_strikes_def)

theorem getOptionStrikes_AAPL_witness:
  "settled (getOptionStrikes (MarketData (JStr ''tok''))
       (always (HttpReply 200
          (JObj [(''SpreadType'', JStr ''Single''), (''Strikes'', JArr [JArr [JStr ''150'']])])))
       (JStr ''AAPL'') JUndefined JUndefined JUndefined JUndefined)
     = Inr (JObj [(''SpreadType'', JStr ''Single''), (''Strikes'', JArr [JArr [JStr ''150'']])])"
  using getOptionStrikes_AAPL
    [where tok = "JStr ''tok''" and s = 200
      and kvs = "[(''SpreadType'', JStr ''Single''), (''Strikes'', JArr [JArr [JStr ''150'']])]"
      and net = "always (HttpReply 200
          (JObj [(''SpreadType'', JStr ''Single''), (''Strikes'', JArr [JArr [JStr ''150'']])]))"]
  by (simp add: always_def success_status_def field_def)

section \<open>Parameter defaults\<close>

text \<open>
  Claim C7: a call that omits a defaulted parameter sends the default of the source:
  bar interval \<open>"1"\<close> and unit \<open>"Daily"\<close> (\<open>getBars\<close>, \<open>streamBars\<close>), \<open>pageSize\<close> 600
  (\<open>getHistoricalOrders\<close>, \<open>getOrders\<close>), \<open>maxLevels\<close> 20 (\<open>streamMarketDepthQuotes\<close>,
  \<open>streamMarketDepthAggregates\<close>), \<open>strikeInterval\<close> 1, \<open>enableGreeks\<close> true, \<open>strikeRange\<close>
  \<open>"All"\<close>, \<open>optionType\<close> \<open>"All"\<close> (\<open>streamOptionChain\<close>), and \<open>spreadType\<close> \<open>"Single"\<close>
  (\<open>getOptionStrikes\<close>, \<open>streamOptionChain\<close>). Each default holds whatever the other
  arguments are.
\<close>

theorem omitted_parameters_take_defaults:
  "param (issued (getBars this net now symbol JUndefined unit barsback firstdate lastdate sessiontemplate))
     ''interval'' = Some (JStr ''1'')
   \<and> param (issued (getBars this net now symbol interval JUndefined barsback firstdate lastdate sessiontemplate))
     ''unit'' = Some (JStr ''Daily'')
   \<and> param (issued (streamBars this net symbol JUndefined unit barsback sessiontemplate))
     ''interval'' = Some (JStr ''1'')
   \<and> param (issued (streamBars this net symbol interval JUndefined barsback sessiontemplate))
     ''unit'' = Some (JStr ''Daily'')
   \<and> param (issued (getHistoricalOrders this net accounts since JUndefined nextToken))
     ''pageSize'' = Some (JNum 600)
   \<and> param (issued (getOrders this net accounts JUndefined nextToken))
     ''pageSize'' = Some (JNum 600)
   \<and> param (issued (streamMarketDepthQuotes this net symbol JUndefined))
     ''maxlevels'' = Some (JNum 20)
   \<and> param (issued (streamMarketDepthAggregates this net symbol JUndefined))
     ''maxlevels'' = Some (JNum 20)
   \<and> param (issued (streamOptionChain this net underlying expiration expiration2 strikeProximity
        spreadType riskFreeRate priceCenter JUndefined enableGreeks strikeRange optionType))
     ''strikeInterval'' = Some (JNum 1)
   \<and> param (issued (streamOptionChain this net underlying expiration expiration2 strikeProximity
        spreadType riskFreeRate priceCenter strikeInterval JUndefined strikeRange optionType))
     ''enableGreeks'' = Some (JBool True)
   \<and> param (issued (streamOptionChain this net underlying expiration expiration2 strikeProximity
        spreadType riskFreeRate priceCenter strikeInterval enableGreeks JUndefined optionType))
     ''strikeRange'' = Some (JStr ''All'')
   \<and> param (issued (streamOptionChain this net underlying expiration expiration2 strikeProximity
        spreadType riskFreeRate priceCenter strikeInterval enableGreeks strikeRange JUndefined))
     ''optionType'' = Some (JStr ''All'')
   \<and> param (issued (streamOptionChain this net underlying expiration expiration2 strikeProximity
        JUndefined riskFreeRate priceCenter strikeInterval enableGreeks strikeRange optionType))
     ''spreadType'' = Some (JStr ''Single'')
   \<and> param (issued (getOptionStrikes this net underlying JUndefined strikeInterval expiration expiration2))
     ''spreadType'' = Some (JStr ''Single'')
   \<and> param (issued (getOptionStrikes this net underlying spreadType JUndefined expiration expiration2))
     ''strikeInterval'' = Some (JNum 1)
   \<and> param (issued (streamOptionQuotes this net legs_0_Symbol legs_0_Ratio riskFreeRate JUndefined))
     ''enableGreeks'' = Some (JBool True)"
  by (simp add: getBars_def streamBars_def getHistoricalOrders_def getOrders_def
      streamMarketDepthQuotes_def streamMarketDepthAggregates_def streamOptionChain_def
      getOptionStrikes_def streamOptionQuotes_def axios_get_def Let_def param_def dflt_def)

section \<open>Failures reach the caller\<close>

text \<open>
  Claim C8: for every method, if the underlying HTTP call fails (a transport error or a
  status that is not 2xx), the returned promise rejects. The rejection reason is the error
  of axios itself or a new \<open>Error\<close> whose message ends with the message of that error; the
  only effect before it is at most one \<open>console.error\<close> of that error; the model issues one
  request per call, so nothing is retried.
\<close>

theorem failure_is_surfaced:
  assumes "http_failed (net (issued (invoke tok net now c)))"
  shows "\<exists>e e'. settled (axios_request net (issued (invoke tok net now c))) = Inl e
           \<and> settled (invoke tok net now c) = Inl e'
           \<and> (e' = e \<or> (\<exists>p. e' = Error (p @ message e)))
           \<and> (effects (invoke tok net now c) = []
                \<or> (\<exists>label. effects (invoke tok net now c) = [ConsoleError label e]))"
proof -
  from assms axios_request_rejected [of net "issued (invoke tok net now c)"] obtain e where
    e: "axios_request net (issued (invoke tok net now c))
          = \<lparr>issued = issued (invoke tok net now c), effects = [], settled = Inl e\<rparr>"
    by blast
  show ?thesis
    using e
    by (cases c)
       (simp_all add: method_defs class_defs axios_defs Let_def log_and_rethrow_def
          throw_new_Error_def)
qed

theorem failure_is_surfaced_witness:
  "settled (invoke (JStr ''tok'') (always (HttpReply 500 JNull)) ''now''
       (GetBars (JStr ''MSFT'') JUndefined JUndefined JUndefined JUndefined JUndefined JUndefined))
     = Inl (Error ''Error fetching bars: Request failed with status code 500'')
   \<and> settled (invoke (JStr ''tok'') (always (NetworkFailure ''Network Error'')) ''now'' GetAccounts)
     = Inl (AxiosError ''Network Error'' None)
   \<and> effects (invoke (JStr ''tok'') (always (NetworkFailure ''Network Error'')) ''now'' GetAccounts)
     = [ConsoleError ''Error fetching accounts:'' (AxiosError ''Network Error'' None)]"
  using failure_is_surfaced
    [where tok = "JStr ''tok''" and net = "always (HttpReply 500 JNull)" and now = "''now''"
      and c = "GetBars (JStr ''MSFT'') JUndefined JUndefined JUndefined JUndefined JUndefined JUndefined"]
    failure_is_surfaced
    [where tok = "JStr ''tok''" and net = "always (NetworkFailure ''Network Error'')"
      and now = "''now''" and c = GetAccounts]
  by (simp add: always_def success_status_def getBars_def getAccounts_def class_defs axios_defs
      axios_request_def Let_def returning_def log_and_rethrow_def throw_new_Error_def
      dec_nat.simps digit_char_def)

section \<open>The bearer token\<close>

text \<open>
  Claim C9: every request issued by any method of any class (Accounts, Orders, MarketData,
  Symbols) carries the header \<open>Authorization: Bearer <token>\<close>, where \<open><token>\<close> is the token
  the instance was constructed with: its text when it is a string, its conversion to a
  string in general.
\<close>

theorem every_request_carries_bearer_token:
  "map_of (headers (issued (invoke (JStr t) net now c))) ''Authorization'' = Some (''Bearer '' @ t)
   \<and> map_of (headers (issued (invoke tok net now c))) ''Authorization''
       = Some (''Bearer '' @ js_to_string tok)"
  by (cases c) (simp_all add: method_defs class_defs axios_defs header_defs Let_def)

section \<open>\<open>streamOrders\<close>\<close>

text \<open>
  Claim C10: when the underlying request succeeds, \<open>streamOrders\<close> resolves to \<open>undefined\<close>:
  its success handler attaches a console-logging \<open>'data'\<close> listener to the response stream
  and returns nothing, so the caller receives neither the stream nor the order data.
\<close>

theorem streamOrders_resolves_undefined:
  assumes "net (issued (streamOrders this net accountIds)) = HttpReply s (JStream h)"
    and "success_status s"
  shows "settled (streamOrders this net accountIds) = Inr JUndefined
         \<and> effects (streamOrders this net accountIds) = [OnDataConsoleLog h]"
  using assms
  by (simp add: streamOrders_def axios_get_def Let_def axios_request_fulfilled
      on_data_console_log_def)

theorem streamOrders_resolves_undefined_witness:
  "settled (streamOrders (Accounts (JStr ''tok'')) (always (HttpReply 200 (JStream 7))) (JStr ''123''))
     = Inr JUndefined
   \<and> effects (streamOrders (Accounts (JStr ''tok'')) (always (HttpReply 200 (JStream 7))) (JStr ''123''))
     = [OnDataConsoleLog 7]"
  using streamOrders_resolves_undefined
    [where this = "Accounts (JStr ''tok'')" and net = "always (HttpReply 200 (JStream 7))"
      and accountIds = "JStr ''123''" and s = 200 and h = 7]
  by (simp add: always_def success_status_def)

end
